theory Spec2Isabelle
  imports Main
begin

section \<open>Python values\<close>

text \<open>
  The values the error classes of \<^verbatim>\<open>python-error-examples.py\<close> store and inspect.
  \<open>Any\<close> of the source's annotations ranges over this universe: \<open>None\<close>, booleans,
  unbounded integers, strings, lists, tuples, dictionaries (insertion ordered, as an
  association list), naive \<open>datetime\<close> objects (year, month, day, hour, minute, second,
  microsecond; the model does not bound the components) and \<open>ErrorContext\<close> objects. No value of the universe is callable and no
  value is an exception; exceptions are a type of their own below. A string is a list of
  code points, restricted to the code points below 256.
\<close>

datatype datetime = Datetime nat nat nat nat nat nat nat

datatype pyval =
    PNone
  | PBool bool
  | PInt int
  | PStr string
  | PList "pyval list"
  | PTuple "pyval list"
  | PDict "(pyval \<times> pyval) list"
  | PDatetime datetime
  | PErrorContext ErrorContext
and ErrorContext =
    ErrorContext (session_path: pyval) (task_id: pyval) (operation: pyval)
      (user_id: pyval) (metadata: pyval)

type_synonym pydict = "(pyval \<times> pyval) list"

text \<open>The exceptions the source raises, as values: every raise is a branch \<open>Inl\<close>.\<close>

datatype error = TypeError | ValueError | AttributeError

subsection \<open>Dictionaries\<close>

text \<open>
  Keys compare with Python's \<open>==\<close>: \<open>True == 1\<close> and \<open>False == 0\<close>, tuples compare
  element by element, everything else structurally. Lists, dictionaries and
  \<open>ErrorContext\<close> objects (a dataclass with \<open>eq\<close> and without \<open>frozen\<close>) are unhashable.
\<close>

fun key_norm :: "pyval \<Rightarrow> pyval" where
  "key_norm (PBool b) = PInt (if b then 1 else 0)"
| "key_norm (PTuple xs) = PTuple (map key_norm xs)"
| "key_norm v = v"

definition py_key_eq :: "pyval \<Rightarrow> pyval \<Rightarrow> bool" where
  "py_key_eq a b = (key_norm a = key_norm b)"

fun hashable :: "pyval \<Rightarrow> bool" where
  "hashable (PList xs) = False"
| "hashable (PDict d) = False"
| "hashable (PErrorContext c) = False"
| "hashable (PTuple xs) = list_all hashable xs"
| "hashable v = True"

text \<open>\<open>d[k] = v\<close>: an existing key keeps its place (and its key object), a new one is appended.\<close>

fun dict_setitem :: "pydict \<Rightarrow> pyval \<Rightarrow> pyval \<Rightarrow> pydict" where
  "dict_setitem [] k v = [(k, v)]"
| "dict_setitem ((k', v') # d) k v =
     (if py_key_eq k' k then (k', v) # d else (k', v') # dict_setitem d k v)"

text \<open>\<open>d.get(k)\<close>.\<close>

fun dict_get :: "pydict \<Rightarrow> pyval \<Rightarrow> pyval option" where
  "dict_get [] k = None"
| "dict_get ((k', v') # d) k = (if py_key_eq k' k then Some v' else dict_get d k)"

text \<open>\<open>list(v)\<close>: the elements an iteration over \<open>v\<close> yields, \<open>TypeError\<close> when \<open>v\<close> is not iterable.\<close>

fun py_iter :: "pyval \<Rightarrow> error + pyval list" where
  "py_iter (PStr s) = Inr (map (\<lambda>c. PStr [c]) s)"
| "py_iter (PList xs) = Inr xs"
| "py_iter (PTuple xs) = Inr xs"
| "py_iter (PDict d) = Inr (map fst d)"
| "py_iter v = Inl TypeError"

text \<open>
  \<open>d.update(other)\<close>. A dictionary is merged entry by entry. Any other argument is
  iterated as a sequence of key/value pairs: an element that is not iterable raises
  \<open>TypeError\<close>, one whose length is not 2 raises \<open>ValueError\<close>, an unhashable key raises
  \<open>TypeError\<close>.
\<close>

fun dict_update_pairs :: "pydict \<Rightarrow> pyval list \<Rightarrow> error + pydict" where
  "dict_update_pairs d [] = Inr d"
| "dict_update_pairs d (x # xs) =
     (case py_iter x of
        Inl e \<Rightarrow> Inl TypeError
      | Inr [k, v] \<Rightarrow>
          if hashable k then dict_update_pairs (dict_setitem d k v) xs else Inl TypeError
      | Inr ys \<Rightarrow> Inl ValueError)"

fun dict_merge :: "pydict \<Rightarrow> pydict \<Rightarrow> pydict" where
  "dict_merge d [] = d"
| "dict_merge d ((k, v) # m) = dict_merge (dict_setitem d k v) m"

fun dict_update :: "pydict \<Rightarrow> pyval \<Rightarrow> error + pydict" where
  "dict_update d (PDict m) = Inr (dict_merge d m)"
| "dict_update d other =
     (case py_iter other of Inl e \<Rightarrow> Inl TypeError | Inr xs \<Rightarrow> dict_update_pairs d xs)"

subsection \<open>Text of values: \<open>str\<close> and \<open>repr\<close>\<close>

definition digit :: "nat \<Rightarrow> char" where
  "digit n = char_of (n + 48)"

function dec_nat :: "nat \<Rightarrow> string" where
  "dec_nat n = (if n < 10 then [digit n] else dec_nat (n div 10) @ [digit (n mod 10)])"
  by pat_completeness auto
termination
  by (relation "measure id") auto

declare dec_nat.simps [simp del]

definition dec_int :: "int \<Rightarrow> string" where
  "dec_int i = (if i < 0 then CHR ''-'' # dec_nat (nat (- i)) else dec_nat (nat i))"

definition hex_digit :: "nat \<Rightarrow> char" where
  "hex_digit n = (if n < 10 then char_of (n + 48) else char_of (n + 87))"

text \<open>\<open>'%0wd' % n\<close>.\<close>

definition zpad :: "nat \<Rightarrow> nat \<Rightarrow> string" where
  "zpad w n = replicate (w - length (dec_nat n)) (CHR ''0'') @ dec_nat n"

text \<open>\<open>sep.join(parts)\<close>.\<close>

fun join :: "string \<Rightarrow> string list \<Rightarrow> string" where
  "join sep [] = []"
| "join sep [x] = x"
| "join sep (x # y # ys) = x @ sep @ join sep (y # ys)"

text \<open>
  \<open>repr\<close> of a string: single quotes unless the string holds a single quote and no
  double quote; the quote and the backslash are escaped, tab, newline and carriage return
  have their letters, every other non-printable code point (the control characters, 0x7f
  to 0xa0 and the soft hyphen 0xad) is written \<open>\xhh\<close>.
\<close>

definition repr_quote :: "string \<Rightarrow> char" where
  "repr_quote s = (if CHR 0x27 \<in> set s \<and> CHR 0x22 \<notin> set s then CHR 0x22 else CHR 0x27)"

definition printable :: "char \<Rightarrow> bool" where
  "printable c = (let n = of_char c :: nat in (32 \<le> n \<and> n < 127) \<or> (161 \<le> n \<and> n \<noteq> 173))"

definition repr_char :: "char \<Rightarrow> char \<Rightarrow> string" where
  "repr_char q c =
     (if c = q \<or> c = CHR 0x5C then [CHR 0x5C, c]
      else if c = CHR 0x09 then [CHR 0x5C, CHR ''t'']
      else if c = CHR 0x0A then [CHR 0x5C, CHR ''n'']
      else if c = CHR 0x0D then [CHR 0x5C, CHR ''r'']
      else if printable c then [c]
      else [CHR 0x5C, CHR ''x'', hex_digit (of_char c div 16), hex_digit (of_char c mod 16)])"

definition repr_str :: "string \<Rightarrow> string" where
  "repr_str s = (let q = repr_quote s in [q] @ concat (map (repr_char q) s) @ [q])"

text \<open>\<open>datetime.isoformat(sep)\<close>: the fraction is printed only when it is not zero.\<close>

fun isoformat :: "char \<Rightarrow> datetime \<Rightarrow> string" where
  "isoformat sep (Datetime y mo d h mi s us) =
     zpad 4 y @ ''-'' @ zpad 2 mo @ ''-'' @ zpad 2 d @ [sep] @
     zpad 2 h @ '':'' @ zpad 2 mi @ '':'' @ zpad 2 s @
     (if us = 0 then [] else ''.'' @ zpad 6 us)"

fun py_repr :: "pyval \<Rightarrow> string" where
  "py_repr PNone = ''None''"
| "py_repr (PBool b) = (if b then ''True'' else ''False'')"
| "py_repr (PInt i) = dec_int i"
| "py_repr (PStr s) = repr_str s"
| "py_repr (PList xs) = ''['' @ join '', '' (map py_repr xs) @ '']''"
| "py_repr (PTuple [x]) = ''('' @ py_repr x @ '',)''"
| "py_repr (PTuple xs) = ''('' @ join '', '' (map py_repr xs) @ '')''"
| "py_repr (PDict d) =
     ''{'' @ join '', '' (map (\<lambda>(k, v). py_repr k @ '': '' @ py_repr v) d) @ ''}''"
| "py_repr (PDatetime (Datetime y mo d h mi s us)) =
     ''datetime.datetime('' @
       join '', '' (map dec_nat
         (if us \<noteq> 0 then [y, mo, d, h, mi, s, us]
          else if s \<noteq> 0 then [y, mo, d, h, mi, s] else [y, mo, d, h, mi])) @ '')''"
| "py_repr (PErrorContext (ErrorContext sp ti op ui md)) =
     ''ErrorContext(session_path='' @ py_repr sp @ '', task_id='' @ py_repr ti @
     '', operation='' @ py_repr op @ '', user_id='' @ py_repr ui @
     '', metadata='' @ py_repr md @ '')''"

text \<open>\<open>str(v)\<close>, which is also what an f-string field \<open>{v}\<close> prints.\<close>

fun py_str :: "pyval \<Rightarrow> string" where
  "py_str (PStr s) = s"
| "py_str (PDatetime t) = isoformat (CHR '' '') t"
| "py_str v = py_repr v"

section \<open>Error codes\<close>

text \<open>
  \<open>class ErrorCode(str, Enum)\<close>: a closed set of members, each a string equal to its own
  name. A member compares equal to the plain string of its value and \<open>json.dumps\<close> writes
  it as that string, so a code is modelled by that string. An f-string field prints the
  value too, as the interpreters before Python 3.11 do for an enum with a \<open>str\<close> mixin.
\<close>

datatype ErrorCode =
    SESSION_LOAD_FAILED | SESSION_SAVE_FAILED | SESSION_NOT_FOUND | SESSION_INVALID_BUGFIX_PATH
  | TASK_EXECUTION_FAILED | TASK_VALIDATION_FAILED | TASK_NOT_FOUND
  | AGENT_LLM_FAILED | AGENT_TIMEOUT | AGENT_PARSE_FAILED
  | VALIDATION_INVALID_INPUT | VALIDATION_MISSING_FIELD | VALIDATION_SCHEMA_FAILED
  | VALIDATION_CIRCULAR_DEPENDENCY | VALIDATION_NESTED_EXECUTION
  | RESOURCE_LIMIT_EXCEEDED

fun ErrorCode_value :: "ErrorCode \<Rightarrow> string" where
  "ErrorCode_value SESSION_LOAD_FAILED = ''SESSION_LOAD_FAILED''"
| "ErrorCode_value SESSION_SAVE_FAILED = ''SESSION_SAVE_FAILED''"
| "ErrorCode_value SESSION_NOT_FOUND = ''SESSION_NOT_FOUND''"
| "ErrorCode_value SESSION_INVALID_BUGFIX_PATH = ''SESSION_INVALID_BUGFIX_PATH''"
| "ErrorCode_value TASK_EXECUTION_FAILED = ''TASK_EXECUTION_FAILED''"
| "ErrorCode_value TASK_VALIDATION_FAILED = ''TASK_VALIDATION_FAILED''"
| "ErrorCode_value TASK_NOT_FOUND = ''TASK_NOT_FOUND''"
| "ErrorCode_value AGENT_LLM_FAILED = ''AGENT_LLM_FAILED''"
| "ErrorCode_value AGENT_TIMEOUT = ''AGENT_TIMEOUT''"
| "ErrorCode_value AGENT_PARSE_FAILED = ''AGENT_PARSE_FAILED''"
| "ErrorCode_value VALIDATION_INVALID_INPUT = ''VALIDATION_INVALID_INPUT''"
| "ErrorCode_value VALIDATION_MISSING_FIELD = ''VALIDATION_MISSING_FIELD''"
| "ErrorCode_value VALIDATION_SCHEMA_FAILED = ''VALIDATION_SCHEMA_FAILED''"
| "ErrorCode_value VALIDATION_CIRCULAR_DEPENDENCY = ''VALIDATION_CIRCULAR_DEPENDENCY''"
| "ErrorCode_value VALIDATION_NESTED_EXECUTION = ''VALIDATION_NESTED_EXECUTION''"
| "ErrorCode_value RESOURCE_LIMIT_EXCEEDED = ''RESOURCE_LIMIT_EXCEEDED''"

definition ErrorCode_members :: "ErrorCode list" where
  "ErrorCode_members =
     [SESSION_LOAD_FAILED, SESSION_SAVE_FAILED, SESSION_NOT_FOUND, SESSION_INVALID_BUGFIX_PATH,
      TASK_EXECUTION_FAILED, TASK_VALIDATION_FAILED, TASK_NOT_FOUND,
      AGENT_LLM_FAILED, AGENT_TIMEOUT, AGENT_PARSE_FAILED,
      VALIDATION_INVALID_INPUT, VALIDATION_MISSING_FIELD, VALIDATION_SCHEMA_FAILED,
      VALIDATION_CIRCULAR_DEPENDENCY, VALIDATION_NESTED_EXECUTION,
      RESOURCE_LIMIT_EXCEEDED]"

text \<open>Membership of a value in the registry.\<close>

definition in_registry :: "pyval \<Rightarrow> bool" where
  "in_registry v = (v \<in> set (map (PStr \<circ> ErrorCode_value) ErrorCode_members))"

section \<open>ErrorContext\<close>

text \<open>
  The dataclass stores what it is given: its generated constructor checks no type, so
  each field holds a value of the universe; the annotations say \<open>str | None\<close> for the four
  named fields and \<open>dict[str, Any]\<close> for \<open>metadata\<close>.
\<close>

definition ErrorContext_getattr :: "ErrorContext \<Rightarrow> string \<Rightarrow> pyval" where
  "ErrorContext_getattr self key =
     (if key = ''session_path'' then session_path self
      else if key = ''task_id'' then task_id self
      else if key = ''operation'' then operation self
      else if key = ''user_id'' then user_id self
      else metadata self)"

text \<open>The loop of \<open>ErrorContext.to_dict\<close> over the four field names.\<close>

primrec to_dict_fields :: "ErrorContext \<Rightarrow> string list \<Rightarrow> pydict \<Rightarrow> pydict" where
  "to_dict_fields self [] result = result"
| "to_dict_fields self (key # keys) result =
     (let value = ErrorContext_getattr self key
      in to_dict_fields self keys
           (if value \<noteq> PNone then dict_setitem result (PStr key) value else result))"

definition ErrorContext_to_dict :: "ErrorContext \<Rightarrow> error + pydict" where
  "ErrorContext_to_dict self =
     dict_update
       (to_dict_fields self [''session_path'', ''task_id'', ''operation'', ''user_id''] [])
       (metadata self)"

text \<open>
  \<open>ErrorContext(**kw)\<close>: a keyword that is not a string or not one of the five field
  names raises \<open>TypeError\<close>; a field not given takes its default (\<open>None\<close>, and a fresh
  empty dictionary for \<open>metadata\<close>).
\<close>

definition field_names :: "string list" where
  "field_names = [''session_path'', ''task_id'', ''operation'', ''user_id'', ''metadata'']"

definition kwarg :: "pydict \<Rightarrow> string \<Rightarrow> pyval \<Rightarrow> pyval" where
  "kwarg kw name dflt = (case dict_get kw (PStr name) of None \<Rightarrow> dflt | Some v \<Rightarrow> v)"

definition ErrorContext_kwargs :: "pydict \<Rightarrow> error + ErrorContext" where
  "ErrorContext_kwargs kw =
     (if list_all (\<lambda>k. k \<in> set (map PStr field_names)) (map fst kw)
      then Inr (ErrorContext (kwarg kw ''session_path'' PNone) (kwarg kw ''task_id'' PNone)
                  (kwarg kw ''operation'' PNone) (kwarg kw ''user_id'' PNone)
                  (kwarg kw ''metadata'' (PDict [])))
      else Inl TypeError)"

section \<open>PipelineError and its variants\<close>

text \<open>
  The five concrete classes. \<open>PipelineError\<close> itself is abstract (\<open>code\<close> is an abstract
  property), so every instance belongs to one of them.
\<close>

datatype variant =
    SessionError | TaskError | ValidationError
  | BugfixSessionValidationError | NestedExecutionError

fun class_name :: "variant \<Rightarrow> string" where
  "class_name SessionError = ''SessionError''"
| "class_name TaskError = ''TaskError''"
| "class_name ValidationError = ''ValidationError''"
| "class_name BugfixSessionValidationError = ''BugfixSessionValidationError''"
| "class_name NestedExecutionError = ''NestedExecutionError''"

text \<open>
  An exception is either one from outside the hierarchy, of which the program reads only
  the class name and the string form, or an instance of a \<open>PipelineError\<close> variant. An
  instance has its class, the \<open>args\<close> tuple and the \<open>__cause__\<close> slot of \<open>BaseException\<close>,
  and its instance dictionary \<open>__dict__\<close>, where \<open>self.timestamp\<close>, \<open>self.context\<close>,
  \<open>self._code\<close> and the flattened context entries live.
\<close>

datatype pyexc =
    StdExc string string
  | PipeExc PipelineError
and PipelineError =
    Instance (cls: variant) (args: "pyval list") (cause: "pyexc option") (inst_dict: pydict)

text \<open>What a caller may pass where the source says \<open>object\<close>: a value or an exception.\<close>

datatype pyobj = Val pyval | Exc pyexc

subsection \<open>Attribute access on an instance\<close>

text \<open>
  \<open>setattr(self, name, value)\<close>. The classes define data descriptors that take
  precedence over the instance dictionary: the read-only property \<open>code\<close>
  (\<open>AttributeError\<close>), the slots of \<open>BaseException\<close> and \<open>object\<close> with their own checks
  (\<open>__cause__\<close>, \<open>__context__\<close> and \<open>__traceback__\<close> take \<open>None\<close> or an exception or traceback,
  \<open>__suppress_context__\<close> a boolean, \<open>__class__\<close> a class, \<open>__dict__\<close> a dictionary, \<open>args\<close>
  an iterable, each raising \<open>TypeError\<close> otherwise) and the read-only \<open>__weakref__\<close>.
  Every other name, also the name of a method, is stored in the instance dictionary. A
  name that is not a string raises \<open>TypeError\<close>.
\<close>

datatype descriptor =
    ReadOnly | CauseSlot | NoneSlot | BoolSlot | ClassSlot | DictSlot | ArgsSlot
  | NoDescriptor

definition descriptor_of :: "string \<Rightarrow> descriptor" where
  "descriptor_of name =
     (if name = ''code'' \<or> name = ''__weakref__'' then ReadOnly
      else if name = ''__cause__'' then CauseSlot
      else if name = ''__context__'' \<or> name = ''__traceback__'' then NoneSlot
      else if name = ''__suppress_context__'' then BoolSlot
      else if name = ''__class__'' then ClassSlot
      else if name = ''__dict__'' then DictSlot
      else if name = ''args'' then ArgsSlot
      else NoDescriptor)"

fun setattr_inst :: "PipelineError \<Rightarrow> pyval \<Rightarrow> pyval \<Rightarrow> error + PipelineError" where
  "setattr_inst (Instance c a ca d) (PStr name) v =
     (case descriptor_of name of
        ReadOnly \<Rightarrow> Inl AttributeError
      | CauseSlot \<Rightarrow> (if v = PNone then Inr (Instance c a None d) else Inl TypeError)
      | NoneSlot \<Rightarrow> (if v = PNone then Inr (Instance c a ca d) else Inl TypeError)
      | BoolSlot \<Rightarrow> (case v of PBool b \<Rightarrow> Inr (Instance c a ca d) | _ \<Rightarrow> Inl TypeError)
      | ClassSlot \<Rightarrow> Inl TypeError
      | DictSlot \<Rightarrow> (case v of PDict m \<Rightarrow> Inr (Instance c a ca m) | _ \<Rightarrow> Inl TypeError)
      | ArgsSlot \<Rightarrow>
          (case py_iter v of Inl e \<Rightarrow> Inl TypeError | Inr xs \<Rightarrow> Inr (Instance c xs ca d))
      | NoDescriptor \<Rightarrow> Inr (Instance c a ca (dict_setitem d (PStr name) v)))"
| "setattr_inst self k v = Inl TypeError"

text \<open>\<open>self.name\<close> for a name no class defines: the instance dictionary or \<open>AttributeError\<close>.\<close>

definition getattr_inst :: "PipelineError \<Rightarrow> string \<Rightarrow> error + pyval" where
  "getattr_inst self name =
     (case dict_get (inst_dict self) (PStr name) of
        None \<Rightarrow> Inl AttributeError
      | Some v \<Rightarrow> Inr v)"

text \<open>
  \<open>self.name(...)\<close> for a method \<open>name\<close> of the class: a function is not a data
  descriptor, so an entry of the instance dictionary under that name is found first, and
  calling it raises \<open>TypeError\<close> (no value of the universe is callable).
\<close>

definition call_method :: "PipelineError \<Rightarrow> string \<Rightarrow> (error + 'a) \<Rightarrow> error + 'a" where
  "call_method self name body =
     (case dict_get (inst_dict self) (PStr name) of
        None \<Rightarrow> body
      | Some v \<Rightarrow> Inl TypeError)"

subsection \<open>The \<open>code\<close> property and the predicates of \<open>SessionError\<close>\<close>

definition code :: "PipelineError \<Rightarrow> error + pyval" where
  "code self =
     (case cls self of
        SessionError \<Rightarrow> getattr_inst self ''_code''
      | TaskError \<Rightarrow> Inr (PStr (ErrorCode_value TASK_EXECUTION_FAILED))
      | ValidationError \<Rightarrow> getattr_inst self ''_code''
      | BugfixSessionValidationError \<Rightarrow> Inr (PStr (ErrorCode_value SESSION_INVALID_BUGFIX_PATH))
      | NestedExecutionError \<Rightarrow> Inr (PStr (ErrorCode_value VALIDATION_NESTED_EXECUTION)))"

definition is_load_error :: "PipelineError \<Rightarrow> error + bool" where
  "is_load_error self =
     (case getattr_inst self ''_code'' of
        Inl e \<Rightarrow> Inl e
      | Inr c \<Rightarrow> Inr (c = PStr (ErrorCode_value SESSION_LOAD_FAILED)))"

definition is_save_error :: "PipelineError \<Rightarrow> error + bool" where
  "is_save_error self =
     (case getattr_inst self ''_code'' of
        Inl e \<Rightarrow> Inl e
      | Inr c \<Rightarrow> Inr (c = PStr (ErrorCode_value SESSION_SAVE_FAILED)))"

subsection \<open>Construction\<close>

text \<open>Lines 165 to 175: the context argument becomes an \<open>ErrorContext\<close> or \<open>TypeError\<close> is raised.\<close>

fun normalize_context :: "pyobj \<Rightarrow> error + ErrorContext" where
  "normalize_context (Val (PErrorContext c)) = Inr c"
| "normalize_context (Val (PDict kw)) = ErrorContext_kwargs kw"
| "normalize_context (Val PNone) = Inr (ErrorContext PNone PNone PNone PNone (PDict []))"
| "normalize_context other = Inl TypeError"

text \<open>Lines 181 and 182: every entry of the context's \<open>to_dict()\<close> is set on the instance.\<close>

fun flatten_context :: "PipelineError \<Rightarrow> pydict \<Rightarrow> error + PipelineError" where
  "flatten_context self [] = Inr self"
| "flatten_context self ((key, v) # items) =
     (case setattr_inst self key v of
        Inl e \<Rightarrow> Inl e
      | Inr self' \<Rightarrow> flatten_context self' items)"

text \<open>
  \<open>PipelineError.__init__\<close> on an instance \<open>self\<close>, with the reading \<open>now\<close> of the clock that
  \<open>datetime.utcnow()\<close> returns. The cause is annotated \<open>BaseException | None\<close>.
\<close>

definition set_dict :: "PipelineError \<Rightarrow> string \<Rightarrow> pyval \<Rightarrow> PipelineError" where
  "set_dict self name v =
     Instance (cls self) (args self) (cause self) (dict_setitem (inst_dict self) (PStr name) v)"

definition PipelineError_init ::
  "PipelineError \<Rightarrow> datetime \<Rightarrow> string \<Rightarrow> pyobj \<Rightarrow> pyexc option \<Rightarrow> error + PipelineError" where
  "PipelineError_init self now message context cause' =
     (let self1 = set_dict self ''timestamp'' (PDatetime now)
      in case normalize_context context of
           Inl e \<Rightarrow> Inl e
         | Inr c \<Rightarrow>
             (let self2 = set_dict self1 ''context'' (PErrorContext c);
                  self3 = Instance (cls self2) [PStr message] (cause self2) (inst_dict self2)
              in case ErrorContext_to_dict c of
                   Inl e \<Rightarrow> Inl e
                 | Inr items \<Rightarrow>
                     (case flatten_context self3 items of
                        Inl e \<Rightarrow> Inl e
                      | Inr self4 \<Rightarrow>
                          Inr (case cause' of
                                 None \<Rightarrow> self4
                               | Some ex \<Rightarrow>
                                   Instance (cls self4) (args self4) (Some ex) (inst_dict self4)))))"

text \<open>The object \<open>__new__\<close> hands to \<open>__init__\<close>: no instance attribute yet, no cause.\<close>

definition new_instance :: "variant \<Rightarrow> PipelineError" where
  "new_instance c = Instance c [] None []"

text \<open>
  The constructors. \<open>SessionError\<close> and \<open>ValidationError\<close> take a \<open>code\<close> (\<open>str | None\<close>) and
  store it, or their default, in \<open>self._code\<close> before the base initialiser runs; the other
  three inherit the base initialiser.
\<close>

definition SessionError_init ::
  "datetime \<Rightarrow> string \<Rightarrow> pyobj \<Rightarrow> pyexc option \<Rightarrow> string option \<Rightarrow> error + PipelineError" where
  "SessionError_init now message context cause' code' =
     PipelineError_init
       (set_dict (new_instance SessionError) ''_code''
          (PStr (case code' of None \<Rightarrow> ErrorCode_value SESSION_LOAD_FAILED | Some c \<Rightarrow> c)))
       now message context cause'"

definition ValidationError_init ::
  "datetime \<Rightarrow> string \<Rightarrow> pyobj \<Rightarrow> pyexc option \<Rightarrow> string option \<Rightarrow> error + PipelineError" where
  "ValidationError_init now message context cause' code' =
     PipelineError_init
       (set_dict (new_instance ValidationError) ''_code''
          (PStr (case code' of None \<Rightarrow> ErrorCode_value VALIDATION_INVALID_INPUT | Some c \<Rightarrow> c)))
       now message context cause'"

definition TaskError_init ::
  "datetime \<Rightarrow> string \<Rightarrow> pyobj \<Rightarrow> pyexc option \<Rightarrow> error + PipelineError" where
  "TaskError_init now message context cause' =
     PipelineError_init (new_instance TaskError) now message context cause'"

definition BugfixSessionValidationError_init ::
  "datetime \<Rightarrow> string \<Rightarrow> pyobj \<Rightarrow> pyexc option \<Rightarrow> error + PipelineError" where
  "BugfixSessionValidationError_init now message context cause' =
     PipelineError_init (new_instance BugfixSessionValidationError) now message context cause'"

definition NestedExecutionError_init ::
  "datetime \<Rightarrow> string \<Rightarrow> pyobj \<Rightarrow> pyexc option \<Rightarrow> error + PipelineError" where
  "NestedExecutionError_init now message context cause' =
     PipelineError_init (new_instance NestedExecutionError) now message context cause'"

text \<open>Any variant's constructor; the code argument is used by the two variants that take one.\<close>

fun construct ::
  "variant \<Rightarrow> datetime \<Rightarrow> string \<Rightarrow> pyobj \<Rightarrow> pyexc option \<Rightarrow> string option \<Rightarrow> error + PipelineError" where
  "construct SessionError now m ctx ca co = SessionError_init now m ctx ca co"
| "construct ValidationError now m ctx ca co = ValidationError_init now m ctx ca co"
| "construct TaskError now m ctx ca co = TaskError_init now m ctx ca"
| "construct BugfixSessionValidationError now m ctx ca co =
     BugfixSessionValidationError_init now m ctx ca"
| "construct NestedExecutionError now m ctx ca co = NestedExecutionError_init now m ctx ca"

subsection \<open>String form and serialisation\<close>

text \<open>\<open>BaseException.__str__\<close>: nothing, the one argument's \<open>str\<close>, or the \<open>str\<close> of the tuple.\<close>

fun BaseException_str :: "pyval list \<Rightarrow> string" where
  "BaseException_str [] = []"
| "BaseException_str [a] = py_str a"
| "BaseException_str as = py_repr (PTuple as)"

text \<open>\<open>self.context.to_dict()\<close>: of the values of the universe only an \<open>ErrorContext\<close> has \<open>to_dict\<close>.\<close>

definition context_to_dict :: "PipelineError \<Rightarrow> error + pydict" where
  "context_to_dict self =
     (case getattr_inst self ''context'' of
        Inl e \<Rightarrow> Inl e
      | Inr (PErrorContext c) \<Rightarrow> ErrorContext_to_dict c
      | Inr v \<Rightarrow> Inl AttributeError)"

text \<open>\<open>self.timestamp.isoformat()\<close>: of the values of the universe only a \<open>datetime\<close> has \<open>isoformat\<close>.\<close>

definition timestamp_isoformat :: "PipelineError \<Rightarrow> error + string" where
  "timestamp_isoformat self =
     (case getattr_inst self ''timestamp'' of
        Inl e \<Rightarrow> Inl e
      | Inr (PDatetime t) \<Rightarrow> Inr (isoformat (CHR ''T'') t)
      | Inr v \<Rightarrow> Inl AttributeError)"

text \<open>\<open>PipelineError.__str__\<close>, lines 237 to 242.\<close>

definition PipelineError_str :: "PipelineError \<Rightarrow> error + string" where
  "PipelineError_str self =
     (case code self of
        Inl e \<Rightarrow> Inl e
      | Inr c \<Rightarrow>
          (let parts = [''['' @ py_str c @ ''] '' @ BaseException_str (args self)]
           in case context_to_dict self of
                Inl e \<Rightarrow> Inl e
              | Inr ctx_dict \<Rightarrow>
                  Inr (join '' | ''
                         (if ctx_dict \<noteq> [] then parts @ [''Context: '' @ py_repr (PDict ctx_dict)]
                          else parts))))"

text \<open>\<open>type(e).__name__\<close> and \<open>str(e)\<close> of an exception.\<close>

fun exc_class_name :: "pyexc \<Rightarrow> string" where
  "exc_class_name (StdExc name text) = name"
| "exc_class_name (PipeExc e) = class_name (cls e)"

fun exc_str :: "pyexc \<Rightarrow> error + string" where
  "exc_str (StdExc name text) = Inr text"
| "exc_str (PipeExc e) = PipelineError_str e"

text \<open>\<open>PipelineError.to_dict\<close>, lines 209 to 227.\<close>

definition PipelineError_to_dict :: "PipelineError \<Rightarrow> error + pydict" where
  "PipelineError_to_dict self =
     (case code self of
        Inl e \<Rightarrow> Inl e
      | Inr c \<Rightarrow>
     (case PipelineError_str self of
        Inl e \<Rightarrow> Inl e
      | Inr msg \<Rightarrow>
     (case timestamp_isoformat self of
        Inl e \<Rightarrow> Inl e
      | Inr ts \<Rightarrow>
     (let result = [(PStr ''name'', PStr (class_name (cls self))), (PStr ''code'', c),
                    (PStr ''message'', PStr msg), (PStr ''timestamp'', PStr ts)]
      in (case context_to_dict self of
            Inl e \<Rightarrow> Inl e
          | Inr ctx_dict \<Rightarrow>
         (let result' = (if ctx_dict \<noteq> []
                         then dict_setitem result (PStr ''context'') (PDict ctx_dict)
                         else result)
          in (case cause self of
                None \<Rightarrow> Inr result'
              | Some ex \<Rightarrow>
                  (case exc_str ex of
                     Inl e \<Rightarrow> Inl e
                   | Inr text \<Rightarrow>
                       Inr (dict_setitem result' (PStr ''cause'')
                              (PDict [(PStr ''name'', PStr (exc_class_name ex)),
                                      (PStr ''message'', PStr text)]))))))))))"

text \<open>A caller's \<open>e.to_dict()\<close>: the attribute is looked up on the instance first.\<close>

definition to_dict :: "PipelineError \<Rightarrow> error + pydict" where
  "to_dict e = call_method e ''to_dict'' (PipelineError_to_dict e)"

section \<open>JSON text\<close>

text \<open>
  \<open>to_json\<close> calls \<open>json.dumps(..., indent=2)\<close> of the standard library, and the round trip
  of the specification parses with \<open>json.loads\<close>. Both are modelled on the universe of
  values above, without floating point numbers.
\<close>

subsection \<open>json.dumps\<close>










subsection \<open>json.loads\<close>















section \<open>Type guards and the classifier\<close>

fun is_pipeline_error :: "pyobj \<Rightarrow> bool" where
  "is_pipeline_error (Exc (PipeExc e)) = True"
| "is_pipeline_error other = False"

fun is_session_error :: "pyobj \<Rightarrow> bool" where
  "is_session_error (Exc (PipeExc e)) = (cls e = SessionError)"
| "is_session_error other = False"

fun is_task_error :: "pyobj \<Rightarrow> bool" where
  "is_task_error (Exc (PipeExc e)) = (cls e = TaskError)"
| "is_task_error other = False"

fun is_validation_error :: "pyobj \<Rightarrow> bool" where
  "is_validation_error (Exc (PipeExc e)) = (cls e = ValidationError)"
| "is_validation_error other = False"

text \<open>\<open>isinstance(error, BaseException)\<close>.\<close>

fun is_BaseException :: "pyobj \<Rightarrow> bool" where
  "is_BaseException (Exc ex) = True"
| "is_BaseException (Val v) = False"

text \<open>
  \<open>is_fatal_error\<close>, lines 527 to 553, branch by branch. \<open>a or b\<close> evaluates \<open>b\<close> only when
  \<open>a\<close> is false.
\<close>

definition is_fatal_error :: "pyobj \<Rightarrow> bool \<Rightarrow> error + bool" where
  "is_fatal_error error continue_on_error =
     (if continue_on_error then Inr False
      else if error = Val PNone \<or> \<not> is_BaseException error then Inr False
      else if is_pipeline_error error then
        (case error of
           Exc (PipeExc e) \<Rightarrow>
             if cls e = BugfixSessionValidationError \<or> cls e = NestedExecutionError then Inr True
             else if is_session_error error then
               (case call_method e ''is_load_error'' (is_load_error e) of
                  Inl x \<Rightarrow> Inl x
                | Inr a \<Rightarrow>
                    if a then Inr True
                    else call_method e ''is_save_error'' (is_save_error e))
             else if is_validation_error error then
               (case code e of
                  Inl x \<Rightarrow> Inl x
                | Inr c \<Rightarrow> Inr (c = PStr (ErrorCode_value VALIDATION_NESTED_EXECUTION)))
             else Inr False
         | other \<Rightarrow> Inr False)
      else Inr False)"

section \<open>Specification-side and auxiliary definitions\<close>

text \<open>
  A Python dictionary has distinct keys; an association list is one when its keys are
  pairwise different under Python's key equality.
\<close>

definition wf_dict :: "pydict \<Rightarrow> bool" where
  "wf_dict m = distinct (map (key_norm \<circ> fst) m)"

text \<open>
  The specification's words for \<open>ErrorContext.to_dict\<close>: the named fields that are present,
  in the order of their declaration.
\<close>

definition spec_named_fields :: "ErrorContext \<Rightarrow> pydict" where
  "spec_named_fields c =
     filter (\<lambda>(k, v). v \<noteq> PNone)
       [(PStr ''session_path'', session_path c), (PStr ''task_id'', task_id c),
        (PStr ''operation'', operation c), (PStr ''user_id'', user_id c)]"

text \<open>
  The attribute names on which \<open>setattr\<close> does something other than store into the instance
  dictionary, and the keys that are strings other than these.
\<close>

definition reserved_names :: "string list" where
  "reserved_names =
     [''code'', ''__weakref__'', ''__cause__'', ''__context__'', ''__traceback__'',
      ''__suppress_context__'', ''__class__'', ''__dict__'', ''args'']"

fun ordinary_key :: "pyval \<Rightarrow> bool" where
  "ordinary_key (PStr name) = (name \<notin> set reserved_names)"
| "ordinary_key k = False"


text \<open>A context whose metadata is a dictionary with ordinary keys.\<close>

definition plain_metadata :: "ErrorContext \<Rightarrow> bool" where
  "plain_metadata c =
     (case metadata c of PDict m \<Rightarrow> list_all ordinary_key (map fst m) | _ \<Rightarrow> False)"

text \<open>The keys that \<open>PipelineError.__init__\<close> copies onto the instance for a context argument.\<close>

definition context_keys :: "pyobj \<Rightarrow> pyval list" where
  "context_keys ctx =
     (case normalize_context ctx of
        Inl e \<Rightarrow> []
      | Inr c \<Rightarrow> (case ErrorContext_to_dict c of Inl e \<Rightarrow> [] | Inr items \<Rightarrow> map fst items))"

text \<open>
  The code argument of a constructor is harmless for registry membership: the variant
  has a fixed code, or the argument is absent, or it is a registry member.
\<close>

definition code_argument_in_registry :: "variant \<Rightarrow> string option \<Rightarrow> bool" where
  "code_argument_in_registry v co =
     (v \<in> {TaskError, BugfixSessionValidationError, NestedExecutionError} \<or>
      (case co of None \<Rightarrow> True | Some s \<Rightarrow> in_registry (PStr s)))"

text \<open>
  The values that JSON represents as they are: \<open>None\<close>, booleans, integers, strings, and
  lists and dictionaries of such, the dictionaries with distinct string keys. A tuple is
  not among them (it is written as a list), nor is a dictionary with a key that is not a
  string (the key is written as a string).
\<close>

fun is_str :: "pyval \<Rightarrow> bool" where
  "is_str (PStr s) = True"
| "is_str v = False"

fun json_native :: "pyval \<Rightarrow> bool" where
  "json_native PNone = True"
| "json_native (PBool b) = True"
| "json_native (PInt i) = True"
| "json_native (PStr s) = True"
| "json_native (PList xs) = list_all json_native xs"
| "json_native (PDict d) =
     (list_all (\<lambda>(k, v). is_str k \<and> json_native v) d \<and> distinct (map fst d))"
| "json_native v = False"



section \<open>Dictionary lemmas\<close>

lemma py_key_eq_refl [simp]: "py_key_eq k k"
  by (simp add: py_key_eq_def)

lemma key_norm_eq_PStr [simp]: "(key_norm k = PStr s) = (k = PStr s)"
  by (cases k) auto

lemma py_key_eq_PStr [simp]: "py_key_eq (PStr a) (PStr b) = (a = b)"
  by (simp add: py_key_eq_def)

lemma py_key_eq_PStr_left: "py_key_eq (PStr a) k = (k = PStr a)"
  by (auto simp: py_key_eq_def dest: sym)

lemma py_key_eq_PStr_right: "py_key_eq k (PStr a) = (k = PStr a)"
  by (auto simp: py_key_eq_def)

lemma dict_get_setitem:
  "dict_get (dict_setitem d k v) k' = (if py_key_eq k k' then Some v else dict_get d k')"
  by (induction d) (auto simp: py_key_eq_def)

lemma dict_get_None_iff:
  "(dict_get d k = None) = (key_norm k \<notin> set (map (key_norm \<circ> fst) d))"
proof (induction d)
  case Nil
  then show ?case by simp
next
  case (Cons p d)
  have "py_key_eq (fst p) k = (key_norm k = key_norm (fst p))"
    by (auto simp: py_key_eq_def)
  then show ?case
    using Cons by (cases p) auto
qed

lemma dict_get_merge:
  "wf_dict m \<Longrightarrow>
   dict_get (dict_merge d m) k =
     (case dict_get m k of Some v \<Rightarrow> Some v | None \<Rightarrow> dict_get d k)"
proof (induction m arbitrary: d)
  case Nil
  then show ?case by simp
next
  case (Cons p m)
  obtain k1 v1 where p: "p = (k1, v1)" by (cases p)
  from Cons.prems have wf: "wf_dict m"
    and fresh: "key_norm k1 \<notin> set (map (key_norm \<circ> fst) m)"
    by (auto simp: wf_dict_def p)
  have "py_key_eq k1 k \<Longrightarrow> dict_get m k = None"
    using fresh by (simp add: dict_get_None_iff py_key_eq_def)
  then show ?case
    using Cons.IH [OF wf] by (auto simp: p dict_get_setitem split: option.splits)
qed

lemma keys_setitem:
  "map fst (dict_setitem d k v) = (if dict_get d k = None then map fst d @ [k] else map fst d)"
  by (induction d) (auto split: if_splits)

lemma keys_merge:
  "wf_dict m \<Longrightarrow>
   map fst (dict_merge d m) = map fst d @ filter (\<lambda>k. dict_get d k = None) (map fst m)"
proof (induction m arbitrary: d)
  case Nil
  then show ?case by simp
next
  case (Cons p m)
  obtain k1 v1 where p: "p = (k1, v1)" by (cases p)
  from Cons.prems have wf: "wf_dict m"
    and fresh: "key_norm k1 \<notin> set (map (key_norm \<circ> fst) m)"
    by (auto simp: wf_dict_def p)
  have same: "filter (\<lambda>k. dict_get (dict_setitem d k1 v1) k = None) (map fst m) =
              filter (\<lambda>k. dict_get d k = None) (map fst m)"
    using fresh by (intro filter_cong) (auto simp: dict_get_setitem py_key_eq_def)
  show ?case
    using Cons.IH [OF wf, of "dict_setitem d k1 v1"] by (simp add: p same keys_setitem)
qed

section \<open>ErrorContext.to_dict\<close>

lemma to_dict_fields_eq:
  "to_dict_fields c [''session_path'', ''task_id'', ''operation'', ''user_id''] [] =
     spec_named_fields c"
  by (simp add: spec_named_fields_def ErrorContext_getattr_def Let_def)

text \<open>
  Claim C8. For an \<open>ErrorContext\<close> whose metadata is a dictionary \<open>m\<close>, \<open>to_dict()\<close> returns a
  mapping \<open>d\<close> in which a key has the metadata's value when the metadata has the key, and
  otherwise the value of the present named field of that name (so a metadata key that
  collides with a named field overwrites it, and an absent field has no key); the keys
  of \<open>d\<close> are the present named fields followed by the metadata keys that are not named
  fields. \<open>ErrorContext(session_path="/a", task_id="T1").to_dict()\<close> is
  \<open>{"session_path": "/a", "task_id": "T1"}\<close>.
\<close>

theorem ErrorContext_to_dict_merges:
  assumes "wf_dict m"
  shows "(\<exists>d. ErrorContext_to_dict (ErrorContext sp ti op ui (PDict m)) = Inr d \<and>
           (\<forall>k. dict_get d k =
              (case dict_get m k of
                 Some v \<Rightarrow> Some v
               | None \<Rightarrow> dict_get (spec_named_fields (ErrorContext sp ti op ui (PDict m))) k)) \<and>
           map fst d =
             map fst (spec_named_fields (ErrorContext sp ti op ui (PDict m))) @
             filter (\<lambda>k. dict_get (spec_named_fields (ErrorContext sp ti op ui (PDict m))) k = None)
               (map fst m)) \<and>
         ErrorContext_to_dict (ErrorContext (PStr ''/a'') (PStr ''T1'') PNone PNone (PDict [])) =
           Inr [(PStr ''session_path'', PStr ''/a''), (PStr ''task_id'', PStr ''T1'')]"
proof (rule conjI)
  let ?c = "ErrorContext sp ti op ui (PDict m)"
  have "ErrorContext_to_dict ?c = Inr (dict_merge (spec_named_fields ?c) m)"
    unfolding ErrorContext_to_dict_def to_dict_fields_eq by simp
  then show "\<exists>d. ErrorContext_to_dict ?c = Inr d \<and>
           (\<forall>k. dict_get d k =
              (case dict_get m k of
                 Some v \<Rightarrow> Some v
               | None \<Rightarrow> dict_get (spec_named_fields ?c) k)) \<and>
           map fst d =
             map fst (spec_named_fields ?c) @
             filter (\<lambda>k. dict_get (spec_named_fields ?c) k = None) (map fst m)"
    using assms by (simp add: dict_get_merge keys_merge)
  show "ErrorContext_to_dict (ErrorContext (PStr ''/a'') (PStr ''T1'') PNone PNone (PDict [])) =
           Inr [(PStr ''session_path'', PStr ''/a''), (PStr ''task_id'', PStr ''T1'')]"
    unfolding ErrorContext_to_dict_def to_dict_fields_eq
    by (simp add: spec_named_fields_def)
qed

theorem ErrorContext_to_dict_merges_witness:
  "wf_dict [(PStr ''session_path'', PStr ''/b''), (PStr ''pid'', PInt 1)] \<and>
   (\<exists>d. ErrorContext_to_dict
          (ErrorContext (PStr ''/a'') (PStr ''T1'') PNone PNone
             (PDict [(PStr ''session_path'', PStr ''/b''), (PStr ''pid'', PInt 1)])) = Inr d \<and>
        dict_get d (PStr ''session_path'') = Some (PStr ''/b'') \<and>
        dict_get d (PStr ''task_id'') = Some (PStr ''T1'') \<and>
        dict_get d (PStr ''operation'') = None \<and>
        map fst d = [PStr ''session_path'', PStr ''task_id'', PStr ''pid''])"
proof -
  let ?m = "[(PStr ''session_path'', PStr ''/b''), (PStr ''pid'', PInt 1)]"
  let ?c = "ErrorContext (PStr ''/a'') (PStr ''T1'') PNone PNone (PDict ?m)"
  have wf: "wf_dict ?m"
    by (simp add: wf_dict_def)
  from ErrorContext_to_dict_merges [OF wf, of "PStr ''/a''" "PStr ''T1''" PNone PNone]
  obtain d where d: "ErrorContext_to_dict ?c = Inr d"
    and get: "\<And>k. dict_get d k =
              (case dict_get ?m k of
                 Some v \<Rightarrow> Some v
               | None \<Rightarrow> dict_get (spec_named_fields ?c) k)"
    and keys: "map fst d = map fst (spec_named_fields ?c) @
                 filter (\<lambda>k. dict_get (spec_named_fields ?c) k = None) (map fst ?m)"
    by blast
  show ?thesis
  proof (intro conjI exI [of _ d])
    show "wf_dict ?m" by (rule wf)
    show "ErrorContext_to_dict ?c = Inr d" by (rule d)
    show "dict_get d (PStr ''session_path'') = Some (PStr ''/b'')"
      by (simp add: get)
    show "dict_get d (PStr ''task_id'') = Some (PStr ''T1'')"
      by (simp add: get spec_named_fields_def)
    show "dict_get d (PStr ''operation'') = None"
      by (simp add: get spec_named_fields_def)
    show "map fst d = [PStr ''session_path'', PStr ''task_id'', PStr ''pid'']"
      by (simp add: keys spec_named_fields_def)
  qed
qed

section \<open>Construction\<close>





lemma descriptor_of_ordinary:
  "(descriptor_of name = NoDescriptor) = (name \<notin> set reserved_names)"
  by (simp add: descriptor_of_def reserved_names_def)

lemma descriptor_of_DictSlot: "descriptor_of name = DictSlot \<Longrightarrow> name = ''__dict__''"
  by (simp add: descriptor_of_def split: if_split_asm)

lemma setattr_ordinary:
  "ordinary_key k \<Longrightarrow>
   setattr_inst (Instance c a ca d) k v = Inr (Instance c a ca (dict_setitem d k v))"
  by (cases k) (auto simp: descriptor_of_ordinary [symmetric])

lemma setattr_result:
  assumes "setattr_inst (Instance c a ca d) (PStr name) v = Inr s'"
  shows "cls s' = c \<and>
         (name = ''__dict__'' \<or> inst_dict s' = d \<or> inst_dict s' = dict_setitem d (PStr name) v)"
  using assms
  by (cases "descriptor_of name")
     (auto dest: descriptor_of_DictSlot split: if_split_asm pyval.split_asm sum.split_asm)

lemma flatten_ordinary:
  "list_all ordinary_key (map fst items) \<Longrightarrow>
   flatten_context (Instance c a ca d) items = Inr (Instance c a ca (dict_merge d items))"
  by (induction items arbitrary: d) (auto simp: setattr_ordinary)

lemma ordinary_named: "list_all ordinary_key (map fst (spec_named_fields c))"
  by (simp add: spec_named_fields_def reserved_names_def)

lemma ordinary_setitem:
  "list_all ordinary_key (map fst d) \<Longrightarrow> ordinary_key k \<Longrightarrow>
   list_all ordinary_key (map fst (dict_setitem d k v))"
  by (induction d) auto

lemma ordinary_merge:
  "list_all ordinary_key (map fst d) \<Longrightarrow> list_all ordinary_key (map fst m) \<Longrightarrow>
   list_all ordinary_key (map fst (dict_merge d m))"
  by (induction m arbitrary: d) (auto simp: ordinary_setitem)

lemma plain_to_dict:
  assumes "plain_metadata c"
  shows "\<exists>items. ErrorContext_to_dict c = Inr items \<and> list_all ordinary_key (map fst items)"
proof -
  from assms obtain m where m: "metadata c = PDict m" and ok: "list_all ordinary_key (map fst m)"
    by (auto simp: plain_metadata_def split: pyval.splits)
  have "ErrorContext_to_dict c = Inr (dict_merge (spec_named_fields c) m)"
    unfolding ErrorContext_to_dict_def to_dict_fields_eq by (simp add: m)
  then show ?thesis
    using ordinary_merge [OF ordinary_named ok] by simp
qed

lemma init_plain:
  assumes "normalize_context ctx = Inr c" and "plain_metadata c"
  shows "\<exists>items. ErrorContext_to_dict c = Inr items \<and>
           PipelineError_init (Instance v a0 ca0 d0) now msg ctx ca =
             Inr (Instance v [PStr msg] (case ca of None \<Rightarrow> ca0 | Some ex \<Rightarrow> Some ex)
                    (dict_merge
                       (dict_setitem (dict_setitem d0 (PStr ''timestamp'') (PDatetime now))
                          (PStr ''context'') (PErrorContext c))
                       items))"
proof -
  from plain_to_dict [OF assms(2)] obtain items where
    items: "ErrorContext_to_dict c = Inr items" and ok: "list_all ordinary_key (map fst items)"
    by blast
  show ?thesis
    using assms(1) items flatten_ordinary [OF ok]
    by (auto simp: PipelineError_init_def set_dict_def split: option.splits)
qed







section \<open>The code of a constructed instance\<close>

lemma registry_member: "in_registry (PStr (ErrorCode_value m))"
  by (cases m) (simp_all add: in_registry_def ErrorCode_members_def)

lemma setattr_keeps_code:
  assumes "setattr_inst self k v = Inr self'" and "k \<noteq> PStr ''_code''" and "k \<noteq> PStr ''__dict__''"
  shows "dict_get (inst_dict self') (PStr ''_code'') = dict_get (inst_dict self) (PStr ''_code'') \<and>
         cls self' = cls self"
proof (cases self)
  case (Instance c a ca d)
  show ?thesis
  proof (cases k)
    case (PStr name)
    from setattr_result [OF assms(1) [unfolded Instance PStr]] assms(2,3)
    show ?thesis
      by (auto simp: Instance PStr dict_get_setitem)
  qed (use assms Instance in auto)
qed

lemma flatten_keeps_code:
  assumes "flatten_context self items = Inr self'"
    and "PStr ''_code'' \<notin> set (map fst items)" and "PStr ''__dict__'' \<notin> set (map fst items)"
  shows "dict_get (inst_dict self') (PStr ''_code'') = dict_get (inst_dict self) (PStr ''_code'') \<and>
         cls self' = cls self"
  using assms
proof (induction items arbitrary: self)
  case Nil
  then show ?case by simp
next
  case (Cons p items)
  obtain k v where p: "p = (k, v)" by (cases p)
  from Cons.prems(1) obtain s1 where s1: "setattr_inst self k v = Inr s1"
    and rest: "flatten_context s1 items = Inr self'"
    by (auto simp: p split: sum.splits)
  from Cons.prems have "k \<noteq> PStr ''_code''" "k \<noteq> PStr ''__dict__''"
    by (auto simp: p)
  from setattr_keeps_code [OF s1 this] Cons.IH [OF rest] Cons.prems(2,3)
  show ?case by (simp add: p)
qed

lemma setattr_cls: "setattr_inst self k v = Inr s1 \<Longrightarrow> cls s1 = cls self"
proof (cases self)
  case (Instance c a ca d)
  assume s1: "setattr_inst self k v = Inr s1"
  show ?thesis
  proof (cases k)
    case (PStr name)
    from setattr_result [OF s1 [unfolded Instance PStr]] show ?thesis
      by (simp add: Instance)
  qed (use s1 Instance in auto)
qed

lemma flatten_cls:
  "flatten_context self items = Inr self' \<Longrightarrow> cls self' = cls self"
proof (induction items arbitrary: self)
  case Nil
  then show ?case by simp
next
  case (Cons p items)
  obtain k v where p: "p = (k, v)" by (cases p)
  from Cons.prems obtain s1 where s1: "setattr_inst self k v = Inr s1"
    and rest: "flatten_context s1 items = Inr self'"
    by (auto simp: p split: sum.splits)
  from Cons.IH [OF rest] setattr_cls [OF s1] show ?case by simp
qed

lemma init_cls:
  "PipelineError_init self now msg ctx ca = Inr e \<Longrightarrow> cls e = cls self"
  by (auto simp: PipelineError_init_def set_dict_def Let_def dest!: flatten_cls
      split: sum.splits option.splits)

lemma init_keeps_code:
  assumes "PipelineError_init self now msg ctx ca = Inr e"
    and "PStr ''_code'' \<notin> set (context_keys ctx)" and "PStr ''__dict__'' \<notin> set (context_keys ctx)"
  shows "dict_get (inst_dict e) (PStr ''_code'') = dict_get (inst_dict self) (PStr ''_code'')"
proof -
  from assms(1) obtain c items s4 where c: "normalize_context ctx = Inr c"
    and items: "ErrorContext_to_dict c = Inr items"
    and fl: "flatten_context
               (Instance (cls self) [PStr msg] (cause self)
                  (dict_setitem (dict_setitem (inst_dict self) (PStr ''timestamp'') (PDatetime now))
                     (PStr ''context'') (PErrorContext c))) items = Inr s4"
    and e: "inst_dict e = inst_dict s4"
    by (auto simp: PipelineError_init_def set_dict_def Let_def split: sum.splits option.splits)
  from assms(2,3) c items have "PStr ''_code'' \<notin> set (map fst items)"
    "PStr ''__dict__'' \<notin> set (map fst items)"
    by (simp_all add: context_keys_def)
  from flatten_keeps_code [OF fl this] show ?thesis
    by (simp add: e dict_get_setitem)
qed

lemma construct_cls: "construct v now msg ctx ca co = Inr e \<Longrightarrow> cls e = v"
  by (cases v) (auto simp: SessionError_init_def ValidationError_init_def
      TaskError_init_def BugfixSessionValidationError_init_def NestedExecutionError_init_def
      new_instance_def set_dict_def dest!: init_cls)

lemma to_dict_code:
  "to_dict e = Inr d \<Longrightarrow> \<exists>c. code e = Inr c \<and> dict_get d (PStr ''code'') = Some c"
  by (auto simp: to_dict_def call_method_def PipelineError_to_dict_def Let_def dict_get_setitem
      split: option.splits sum.splits if_splits)

lemma construct_code_registry:
  assumes "construct v now msg ctx ca co = Inr e"
    and "code_argument_in_registry v co"
    and "PStr ''_code'' \<notin> set (context_keys ctx)" and "PStr ''__dict__'' \<notin> set (context_keys ctx)"
  shows "\<exists>c. code e = Inr c \<and> in_registry c"
proof -
  have v: "cls e = v" using assms(1) by (rule construct_cls)
  show ?thesis
  proof (cases v)
    case SessionError
    with assms(1) have i: "PipelineError_init
       (set_dict (new_instance SessionError) ''_code''
          (PStr (case co of None \<Rightarrow> ErrorCode_value SESSION_LOAD_FAILED | Some c \<Rightarrow> c)))
       now msg ctx ca = Inr e"
      by (simp add: SessionError_init_def)
    from init_keeps_code [OF i assms(3,4)] assms(2) SessionError v show ?thesis
      by (auto simp: code_def getattr_inst_def set_dict_def new_instance_def
          code_argument_in_registry_def in_registry_def ErrorCode_members_def split: option.splits)
  next
    case ValidationError
    with assms(1) have i: "PipelineError_init
       (set_dict (new_instance ValidationError) ''_code''
          (PStr (case co of None \<Rightarrow> ErrorCode_value VALIDATION_INVALID_INPUT | Some c \<Rightarrow> c)))
       now msg ctx ca = Inr e"
      by (simp add: ValidationError_init_def)
    from init_keeps_code [OF i assms(3,4)] assms(2) ValidationError v show ?thesis
      by (auto simp: code_def getattr_inst_def set_dict_def new_instance_def
          code_argument_in_registry_def in_registry_def ErrorCode_members_def split: option.splits)
  qed (use v in \<open>simp_all add: code_def in_registry_def ErrorCode_members_def\<close>)
qed

text \<open>
  Claim C5, as amended. Whenever \<open>to_dict()\<close> returns, its \<open>code\<close> entry is the value of the
  \<open>code\<close> accessor. For a constructed instance that value is a member of the registry when
  the variant has a fixed code or the code argument is absent or is itself a member, and
  no context key is \<open>_code\<close> or \<open>__dict__\<close>.
\<close>

theorem to_dict_code_is_code:
  "(\<forall>d. to_dict e = Inr d \<longrightarrow> (\<exists>c. code e = Inr c \<and> dict_get d (PStr ''code'') = Some c)) \<and>
   (construct v now msg ctx ca co = Inr e \<longrightarrow> code_argument_in_registry v co \<longrightarrow>
    PStr ''_code'' \<notin> set (context_keys ctx) \<longrightarrow> PStr ''__dict__'' \<notin> set (context_keys ctx) \<longrightarrow>
    (\<exists>c. code e = Inr c \<and> in_registry c))"
  using to_dict_code construct_code_registry by blast

lemma example_session_error:
  "construct SessionError (Datetime 2024 1 2 3 4 5 0) ''x''
     (Val (PErrorContext (ErrorContext (PStr ''/a'') PNone PNone PNone (PDict [(PStr ''pid'', PInt 7)]))))
     None (Some ''SESSION_SAVE_FAILED'') =
   Inr (Instance SessionError [PStr ''x''] None
       [(PStr ''_code'', PStr ''SESSION_SAVE_FAILED''),
        (PStr ''timestamp'', PDatetime (Datetime 2024 1 2 3 4 5 0)),
        (PStr ''context'', PErrorContext (ErrorContext (PStr ''/a'') PNone PNone PNone
           (PDict [(PStr ''pid'', PInt 7)]))),
        (PStr ''session_path'', PStr ''/a''),
        (PStr ''pid'', PInt 7)])"
  by code_simp

theorem to_dict_code_is_code_witness:
  "to_dict (Instance SessionError [PStr ''x''] None
       [(PStr ''_code'', PStr ''SESSION_SAVE_FAILED''),
        (PStr ''timestamp'', PDatetime (Datetime 2024 1 2 3 4 5 0)),
        (PStr ''context'', PErrorContext (ErrorContext (PStr ''/a'') PNone PNone PNone
           (PDict [(PStr ''pid'', PInt 7)]))),
        (PStr ''session_path'', PStr ''/a''),
        (PStr ''pid'', PInt 7)]) =
     Inr [(PStr ''name'', PStr ''SessionError''), (PStr ''code'', PStr ''SESSION_SAVE_FAILED''),
          (PStr ''message'',
           PStr (''[SESSION_SAVE_FAILED] x | Context: {'' @ [CHR 0x27] @ ''session_path'' @ [CHR 0x27] @
                 '': '' @ [CHR 0x27] @ ''/a'' @ [CHR 0x27] @ '', '' @ [CHR 0x27] @ ''pid'' @ [CHR 0x27] @
                 '': 7}'')),
          (PStr ''timestamp'', PStr ''2024-01-02T03:04:05''),
          (PStr ''context'', PDict [(PStr ''session_path'', PStr ''/a''), (PStr ''pid'', PInt 7)])] \<and>
   code (Instance SessionError [PStr ''x''] None
       [(PStr ''_code'', PStr ''SESSION_SAVE_FAILED''),
        (PStr ''timestamp'', PDatetime (Datetime 2024 1 2 3 4 5 0)),
        (PStr ''context'', PErrorContext (ErrorContext (PStr ''/a'') PNone PNone PNone
           (PDict [(PStr ''pid'', PInt 7)]))),
        (PStr ''session_path'', PStr ''/a''),
        (PStr ''pid'', PInt 7)]) = Inr (PStr ''SESSION_SAVE_FAILED'') \<and>
   in_registry (PStr ''SESSION_SAVE_FAILED'') \<and>
   code_argument_in_registry SessionError (Some ''SESSION_SAVE_FAILED'') \<and>
   PStr ''_code'' \<notin> set (context_keys
     (Val (PErrorContext (ErrorContext (PStr ''/a'') PNone PNone PNone (PDict [(PStr ''pid'', PInt 7)]))))) \<and>
   PStr ''__dict__'' \<notin> set (context_keys
     (Val (PErrorContext (ErrorContext (PStr ''/a'') PNone PNone PNone (PDict [(PStr ''pid'', PInt 7)])))))"
proof -
  let ?ctx = "Val (PErrorContext (ErrorContext (PStr ''/a'') PNone PNone PNone (PDict [(PStr ''pid'', PInt 7)])))"
  let ?e = "Instance SessionError [PStr ''x''] None
       [(PStr ''_code'', PStr ''SESSION_SAVE_FAILED''),
        (PStr ''timestamp'', PDatetime (Datetime 2024 1 2 3 4 5 0)),
        (PStr ''context'', PErrorContext (ErrorContext (PStr ''/a'') PNone PNone PNone
           (PDict [(PStr ''pid'', PInt 7)]))),
        (PStr ''session_path'', PStr ''/a''),
        (PStr ''pid'', PInt 7)]"
  have td: "to_dict ?e =
     Inr [(PStr ''name'', PStr ''SessionError''), (PStr ''code'', PStr ''SESSION_SAVE_FAILED''),
          (PStr ''message'',
           PStr (''[SESSION_SAVE_FAILED] x | Context: {'' @ [CHR 0x27] @ ''session_path'' @ [CHR 0x27] @
                 '': '' @ [CHR 0x27] @ ''/a'' @ [CHR 0x27] @ '', '' @ [CHR 0x27] @ ''pid'' @ [CHR 0x27] @
                 '': 7}'')),
          (PStr ''timestamp'', PStr ''2024-01-02T03:04:05''),
          (PStr ''context'', PDict [(PStr ''session_path'', PStr ''/a''), (PStr ''pid'', PInt 7)])]"
    by code_simp
  have arg: "code_argument_in_registry SessionError (Some ''SESSION_SAVE_FAILED'')"
    by code_simp
  have k1: "PStr ''_code'' \<notin> set (context_keys ?ctx)"
    by code_simp
  have k2: "PStr ''__dict__'' \<notin> set (context_keys ?ctx)"
    by code_simp
  from to_dict_code_is_code [of ?e SessionError "Datetime 2024 1 2 3 4 5 0" "''x''" ?ctx None
      "Some ''SESSION_SAVE_FAILED''"] example_session_error td arg k1 k2
  have "code ?e = Inr (PStr ''SESSION_SAVE_FAILED'') \<and> in_registry (PStr ''SESSION_SAVE_FAILED'')"
    by auto
  with td arg k1 k2 show ?thesis by simp
qed

text \<open>
  \<open>SessionError("x", code="BOGUS")\<close> is constructed, and its code, which \<open>to_dict()\<close> reports,
  is not in the registry: the constructor stores any string.
\<close>

theorem unregistered_code_counterexample:
  "SessionError_init (Datetime 2024 1 2 3 4 5 0) ''x'' (Val PNone) None (Some ''BOGUS'') =
     Inr (Instance SessionError [PStr ''x''] None
       [(PStr ''_code'', PStr ''BOGUS''),
        (PStr ''timestamp'', PDatetime (Datetime 2024 1 2 3 4 5 0)),
        (PStr ''context'', PErrorContext (ErrorContext PNone PNone PNone PNone (PDict [])))]) \<and>
   to_dict (Instance SessionError [PStr ''x''] None
       [(PStr ''_code'', PStr ''BOGUS''),
        (PStr ''timestamp'', PDatetime (Datetime 2024 1 2 3 4 5 0)),
        (PStr ''context'', PErrorContext (ErrorContext PNone PNone PNone PNone (PDict [])))]) =
     Inr [(PStr ''name'', PStr ''SessionError''), (PStr ''code'', PStr ''BOGUS''),
          (PStr ''message'', PStr ''[BOGUS] x''),
          (PStr ''timestamp'', PStr ''2024-01-02T03:04:05'')] \<and>
   code (Instance SessionError [PStr ''x''] None
       [(PStr ''_code'', PStr ''BOGUS''),
        (PStr ''timestamp'', PDatetime (Datetime 2024 1 2 3 4 5 0)),
        (PStr ''context'', PErrorContext (ErrorContext PNone PNone PNone PNone (PDict [])))]) =
     Inr (PStr ''BOGUS'') \<and>
   \<not> in_registry (PStr ''BOGUS'')"
  by code_simp

section \<open>The classifier\<close>

text \<open>
  Claim C1. With \<open>continue_on_error\<close> true, \<open>is_fatal_error\<close> returns \<open>False\<close> for every argument,
  a value or an exception, the fatal variants included.
\<close>

theorem is_fatal_error_continue_on_error:
  "is_fatal_error x True = Inr False"
  by (simp add: is_fatal_error_def)

text \<open>
  Claim C2. With \<open>continue_on_error\<close> false, every instance of \<open>BugfixSessionValidationError\<close>
  and every instance of \<open>NestedExecutionError\<close> is fatal, whatever its arguments, its cause
  and its instance attributes (the message and the context among them).
\<close>

theorem marker_variants_are_fatal:
  "is_fatal_error (Exc (PipeExc (Instance BugfixSessionValidationError a ca d))) False = Inr True \<and>
   is_fatal_error (Exc (PipeExc (Instance NestedExecutionError a ca d))) False = Inr True"
  by (simp add: is_fatal_error_def)

text \<open>
  Claim C10. A \<open>NestedExecutionError\<close> has the code \<open>VALIDATION_NESTED_EXECUTION\<close> and is not a
  \<open>ValidationError\<close>; a \<open>BugfixSessionValidationError\<close> has the code
  \<open>SESSION_INVALID_BUGFIX_PATH\<close> and is not a \<open>SessionError\<close>. Neither marker satisfies the guard
  of the \<open>SessionError\<close> rule or of the \<open>ValidationError\<close> rule of \<open>is_fatal_error\<close>, and both
  are fatal.
\<close>

theorem markers_outside_domain_classes:
  "\<not> is_validation_error (Exc (PipeExc (Instance NestedExecutionError a ca d))) \<and>
   \<not> is_session_error (Exc (PipeExc (Instance NestedExecutionError a ca d))) \<and>
   \<not> is_session_error (Exc (PipeExc (Instance BugfixSessionValidationError a ca d))) \<and>
   \<not> is_validation_error (Exc (PipeExc (Instance BugfixSessionValidationError a ca d))) \<and>
   code (Instance NestedExecutionError a ca d) = Inr (PStr ''VALIDATION_NESTED_EXECUTION'') \<and>
   code (Instance BugfixSessionValidationError a ca d) =
     Inr (PStr ''SESSION_INVALID_BUGFIX_PATH'') \<and>
   is_fatal_error (Exc (PipeExc (Instance NestedExecutionError a ca d))) False = Inr True \<and>
   is_fatal_error (Exc (PipeExc (Instance BugfixSessionValidationError a ca d))) False = Inr True"
  by (simp add: is_fatal_error_def code_def)

text \<open>
  The rules for \<open>SessionError\<close> and \<open>ValidationError\<close> on an instance whose methods
  \<open>is_load_error\<close> and \<open>is_save_error\<close> are not shadowed by instance attributes.
\<close>

lemma session_error_verdict:
  assumes "cls e = SessionError"
    and "dict_get (inst_dict e) (PStr ''is_load_error'') = None"
    and "dict_get (inst_dict e) (PStr ''is_save_error'') = None"
    and "code e = Inr c"
  shows "is_fatal_error (Exc (PipeExc e)) False =
           Inr (c = PStr ''SESSION_LOAD_FAILED'' \<or> c = PStr ''SESSION_SAVE_FAILED'')"
  using assms
  by (auto simp: is_fatal_error_def call_method_def is_load_error_def is_save_error_def code_def)

lemma validation_error_verdict:
  assumes "cls e = ValidationError" and "code e = Inr c"
  shows "is_fatal_error (Exc (PipeExc e)) False = Inr (c = PStr ''VALIDATION_NESTED_EXECUTION'')"
  using assms by (simp add: is_fatal_error_def)

lemma validation_error_fatal_iff:
  assumes "cls e = ValidationError"
  shows "(is_fatal_error (Exc (PipeExc e)) False = Inr True) =
           (code e = Inr (PStr ''VALIDATION_NESTED_EXECUTION''))"
  using assms by (auto simp: is_fatal_error_def split: sum.splits)

lemma not_an_exception_verdict: "is_fatal_error (Val v) False = Inr False"
  by (simp add: is_fatal_error_def)

lemma standard_exception_verdict: "is_fatal_error (Exc (StdExc name text)) False = Inr False"
  by (simp add: is_fatal_error_def)

lemma task_error_verdict:
  "cls e = TaskError \<Longrightarrow> is_fatal_error (Exc (PipeExc e)) b = Inr False"
  by (simp add: is_fatal_error_def)

text \<open>
  Claim C3. \<open>SessionError("x", ErrorContext(metadata={"is_load_error": 1}))\<close> is constructed
  with the default code \<open>SESSION_LOAD_FAILED\<close>; flattening the context stores the integer
  under the method's name, and \<open>is_fatal_error\<close> raises \<open>TypeError\<close> when it calls
  \<open>error.is_load_error()\<close>, where the claim has \<open>True\<close>.
\<close>

theorem session_error_shadowed_is_load_error:
  "SessionError_init (Datetime 2024 1 2 3 4 5 0) ''x''
     (Val (PErrorContext (ErrorContext PNone PNone PNone PNone
        (PDict [(PStr ''is_load_error'', PInt 1)])))) None None =
     Inr (Instance SessionError [PStr ''x''] None
       [(PStr ''_code'', PStr ''SESSION_LOAD_FAILED''),
        (PStr ''timestamp'', PDatetime (Datetime 2024 1 2 3 4 5 0)),
        (PStr ''context'', PErrorContext (ErrorContext PNone PNone PNone PNone
           (PDict [(PStr ''is_load_error'', PInt 1)]))),
        (PStr ''is_load_error'', PInt 1)]) \<and>
   code (Instance SessionError [PStr ''x''] None
       [(PStr ''_code'', PStr ''SESSION_LOAD_FAILED''),
        (PStr ''timestamp'', PDatetime (Datetime 2024 1 2 3 4 5 0)),
        (PStr ''context'', PErrorContext (ErrorContext PNone PNone PNone PNone
           (PDict [(PStr ''is_load_error'', PInt 1)]))),
        (PStr ''is_load_error'', PInt 1)]) = Inr (PStr ''SESSION_LOAD_FAILED'') \<and>
   is_fatal_error (Exc (PipeExc (Instance SessionError [PStr ''x''] None
       [(PStr ''_code'', PStr ''SESSION_LOAD_FAILED''),
        (PStr ''timestamp'', PDatetime (Datetime 2024 1 2 3 4 5 0)),
        (PStr ''context'', PErrorContext (ErrorContext PNone PNone PNone PNone
           (PDict [(PStr ''is_load_error'', PInt 1)]))),
        (PStr ''is_load_error'', PInt 1)]))) False = Inl TypeError"
  by code_simp

text \<open>
  Claim C4. \<open>SessionError("x", ErrorContext(metadata={"is_save_error": 1}),
  code="SESSION_NOT_FOUND")\<close> is a non-fatal \<open>SessionError\<close>; \<open>is_fatal_error\<close> raises \<open>TypeError\<close>
  on it when it calls \<open>error.is_save_error()\<close>, where the claim has a function that never
  throws.
\<close>

theorem session_error_shadowed_is_save_error:
  "SessionError_init (Datetime 2024 1 2 3 4 5 0) ''x''
     (Val (PErrorContext (ErrorContext PNone PNone PNone PNone
        (PDict [(PStr ''is_save_error'', PInt 1)])))) None (Some ''SESSION_NOT_FOUND'') =
     Inr (Instance SessionError [PStr ''x''] None
       [(PStr ''_code'', PStr ''SESSION_NOT_FOUND''),
        (PStr ''timestamp'', PDatetime (Datetime 2024 1 2 3 4 5 0)),
        (PStr ''context'', PErrorContext (ErrorContext PNone PNone PNone PNone
           (PDict [(PStr ''is_save_error'', PInt 1)]))),
        (PStr ''is_save_error'', PInt 1)]) \<and>
   code (Instance SessionError [PStr ''x''] None
       [(PStr ''_code'', PStr ''SESSION_NOT_FOUND''),
        (PStr ''timestamp'', PDatetime (Datetime 2024 1 2 3 4 5 0)),
        (PStr ''context'', PErrorContext (ErrorContext PNone PNone PNone PNone
           (PDict [(PStr ''is_save_error'', PInt 1)]))),
        (PStr ''is_save_error'', PInt 1)]) = Inr (PStr ''SESSION_NOT_FOUND'') \<and>
   is_fatal_error (Exc (PipeExc (Instance SessionError [PStr ''x''] None
       [(PStr ''_code'', PStr ''SESSION_NOT_FOUND''),
        (PStr ''timestamp'', PDatetime (Datetime 2024 1 2 3 4 5 0)),
        (PStr ''context'', PErrorContext (ErrorContext PNone PNone PNone PNone
           (PDict [(PStr ''is_save_error'', PInt 1)]))),
        (PStr ''is_save_error'', PInt 1)]))) False = Inl TypeError"
  by code_simp

section \<open>Serialisation\<close>

text \<open>
  Claim C6. \<open>TaskError("x", ErrorContext(metadata={"timestamp": "t"}))\<close> is constructed; the
  flattening loop overwrites \<open>self.timestamp\<close> with the string, and \<open>to_dict()\<close> raises
  \<open>AttributeError\<close> at \<open>self.timestamp.isoformat()\<close>, where the claim has a mapping.
\<close>

theorem to_dict_overwritten_timestamp:
  "TaskError_init (Datetime 2024 1 2 3 4 5 0) ''x''
     (Val (PErrorContext (ErrorContext PNone PNone PNone PNone
        (PDict [(PStr ''timestamp'', PStr ''t'')])))) None =
     Inr (Instance TaskError [PStr ''x''] None
       [(PStr ''timestamp'', PStr ''t''),
        (PStr ''context'', PErrorContext (ErrorContext PNone PNone PNone PNone
           (PDict [(PStr ''timestamp'', PStr ''t'')])))]) \<and>
   to_dict (Instance TaskError [PStr ''x''] None
       [(PStr ''timestamp'', PStr ''t''),
        (PStr ''context'', PErrorContext (ErrorContext PNone PNone PNone PNone
           (PDict [(PStr ''timestamp'', PStr ''t'')])))]) = Inl AttributeError"
  by code_simp

text \<open>
  What \<open>to_dict()\<close> returns when it returns: the four fixed keys in order, then \<open>context\<close>
  exactly when the context's \<open>to_dict()\<close> is not empty, then \<open>cause\<close> exactly when a cause is
  attached, with the name and string form of that cause.
\<close>

lemma to_dict_shape:
  assumes "to_dict e = Inr d"
  shows "\<exists>c msg ts cd.
           code e = Inr c \<and> PipelineError_str e = Inr msg \<and> timestamp_isoformat e = Inr ts \<and>
           context_to_dict e = Inr cd \<and>
           msg = ''['' @ py_str c @ ''] '' @ BaseException_str (args e) @
                 (if cd \<noteq> [] then '' | Context: '' @ py_repr (PDict cd) else []) \<and>
           d = [(PStr ''name'', PStr (class_name (cls e))), (PStr ''code'', c),
                (PStr ''message'', PStr msg), (PStr ''timestamp'', PStr ts)] @
               (if cd \<noteq> [] then [(PStr ''context'', PDict cd)] else []) @
               (case cause e of
                  None \<Rightarrow> []
                | Some ex \<Rightarrow>
                    [(PStr ''cause'',
                      PDict [(PStr ''name'', PStr (exc_class_name ex)),
                             (PStr ''message'', PStr (case exc_str ex of Inr text \<Rightarrow> text | Inl x \<Rightarrow> []))])]) \<and>
           (\<forall>ex. cause e = Some ex \<longrightarrow> (\<exists>text. exc_str ex = Inr text))"
proof -
  from assms have body: "PipelineError_to_dict e = Inr d"
    by (auto simp: to_dict_def call_method_def split: option.splits)
  then obtain c where c: "code e = Inr c"
    by (auto simp: PipelineError_to_dict_def split: sum.splits)
  from body c obtain msg where msg: "PipelineError_str e = Inr msg"
    by (auto simp: PipelineError_to_dict_def split: sum.splits)
  from body c msg obtain ts where ts: "timestamp_isoformat e = Inr ts"
    by (auto simp: PipelineError_to_dict_def split: sum.splits)
  from body c msg ts obtain cd where cd: "context_to_dict e = Inr cd"
    by (auto simp: PipelineError_to_dict_def Let_def split: sum.splits)
  have m: "msg = ''['' @ py_str c @ ''] '' @ BaseException_str (args e) @
                 (if cd \<noteq> [] then '' | Context: '' @ py_repr (PDict cd) else [])"
    using msg c cd by (auto simp: PipelineError_str_def Let_def)
  show ?thesis
  proof (cases "cause e")
    case None
    with body c msg ts cd m show ?thesis
      by (auto simp: PipelineError_to_dict_def Let_def)
  next
    case (Some ex)
    with body c msg ts cd obtain str where str: "exc_str ex = Inr str"
      by (auto simp: PipelineError_to_dict_def Let_def split: sum.splits)
    with Some body c msg ts cd m str show ?thesis
      by (auto simp: PipelineError_to_dict_def Let_def)
  qed
qed

lemma dict_get_merge_other:
  "PStr name \<notin> set (map fst m) \<Longrightarrow>
   dict_get (dict_merge d m) (PStr name) = dict_get d (PStr name)"
  by (induction m arbitrary: d) (auto simp: dict_get_setitem py_key_eq_PStr_right)

lemma dict_get_merge_present:
  "dict_get d k \<noteq> None \<Longrightarrow> dict_get (dict_merge d m) k \<noteq> None"
  by (induction m arbitrary: d) (auto simp: dict_get_setitem)

text \<open>
  \<open>to_dict()\<close> returns on every instance constructed with a context whose metadata is a
  dictionary with ordinary keys, none of them \<open>timestamp\<close>, \<open>context\<close> or \<open>to_dict\<close>, and with
  a cause, if any, that has a string form.
\<close>

lemma init_to_dict_returns:
  assumes init: "PipelineError_init (Instance v a0 None d0) now msg ctx ca = Inr e"
    and c: "normalize_context ctx = Inr c" and plain: "plain_metadata c"
    and k1: "PStr ''timestamp'' \<notin> set (context_keys ctx)"
    and k2: "PStr ''context'' \<notin> set (context_keys ctx)"
    and k3: "PStr ''to_dict'' \<notin> set (context_keys ctx)"
    and d0: "dict_get d0 (PStr ''to_dict'') = None"
    and co: "v = SessionError \<or> v = ValidationError \<Longrightarrow> dict_get d0 (PStr ''_code'') \<noteq> None"
    and ca: "\<And>ex. ca = Some ex \<Longrightarrow> \<exists>s. exc_str ex = Inr s"
  shows "\<exists>d. to_dict e = Inr d"
proof -
  from init_plain [OF c plain, of v a0 None d0 now msg ca] init obtain items where
    items: "ErrorContext_to_dict c = Inr items"
    and e: "e = Instance v [PStr msg] ca
                  (dict_merge
                     (dict_setitem (dict_setitem d0 (PStr ''timestamp'') (PDatetime now))
                        (PStr ''context'') (PErrorContext c))
                     items)"
    by (auto split: option.splits)
  have keys: "context_keys ctx = map fst items"
    by (simp add: context_keys_def c items)
  have ts: "getattr_inst e ''timestamp'' = Inr (PDatetime now)"
    using k1 by (simp add: e getattr_inst_def keys dict_get_merge_other dict_get_setitem)
  have cx: "getattr_inst e ''context'' = Inr (PErrorContext c)"
    using k2 by (simp add: e getattr_inst_def keys dict_get_merge_other dict_get_setitem)
  have td: "dict_get (inst_dict e) (PStr ''to_dict'') = None"
    using k3 d0 by (simp add: e keys dict_get_merge_other dict_get_setitem)
  have "\<exists>cv. code e = Inr cv"
  proof (cases "v = SessionError \<or> v = ValidationError")
    case True
    from co [OF True] have "dict_get (dict_setitem (dict_setitem d0 (PStr ''timestamp'') (PDatetime now))
                        (PStr ''context'') (PErrorContext c)) (PStr ''_code'') \<noteq> None"
      by (simp add: dict_get_setitem)
    then have "dict_get (inst_dict e) (PStr ''_code'') \<noteq> None"
      unfolding e by (simp only: PipelineError.sel) (rule dict_get_merge_present)
    with True show ?thesis
      by (auto simp: code_def getattr_inst_def e split: option.splits)
  next
    case False
    then show ?thesis by (cases v) (auto simp: code_def e)
  qed
  then obtain cv where cv: "code e = Inr cv" by blast
  have cd: "context_to_dict e = Inr items"
    by (simp add: context_to_dict_def cx items)
  have iso: "\<exists>t. timestamp_isoformat e = Inr t"
    by (simp add: timestamp_isoformat_def ts)
  have str: "\<exists>m. PipelineError_str e = Inr m"
    by (simp add: PipelineError_str_def cv cd Let_def)
  have cause_e: "cause e = ca" by (simp add: e)
  from iso obtain t where t: "timestamp_isoformat e = Inr t" by blast
  from str obtain m where m: "PipelineError_str e = Inr m" by blast
  show ?thesis
  proof (cases ca)
    case None
    then show ?thesis
      by (simp add: to_dict_def call_method_def td PipelineError_to_dict_def cv cd t m cause_e
          Let_def)
  next
    case (Some ex)
    from ca [OF Some] obtain s where "exc_str ex = Inr s" by blast
    with Some show ?thesis
      by (simp add: to_dict_def call_method_def td PipelineError_to_dict_def cv cd t m cause_e
          Let_def)
  qed
qed

lemma to_dict_returns:
  assumes "construct v now msg ctx ca co = Inr e"
    and "normalize_context ctx = Inr c" and "plain_metadata c"
    and "PStr ''timestamp'' \<notin> set (context_keys ctx)"
    and "PStr ''context'' \<notin> set (context_keys ctx)"
    and "PStr ''to_dict'' \<notin> set (context_keys ctx)"
    and "\<And>ex. ca = Some ex \<Longrightarrow> \<exists>s. exc_str ex = Inr s"
  shows "\<exists>d. to_dict e = Inr d"
proof (cases v)
  case SessionError
  with assms(1) show ?thesis
    by (intro init_to_dict_returns [OF _ assms(2-6) _ _ assms(7)])
       (auto simp: SessionError_init_def set_dict_def new_instance_def)
next
  case TaskError
  with assms(1) show ?thesis
    by (intro init_to_dict_returns [OF _ assms(2-6) _ _ assms(7)])
       (auto simp: TaskError_init_def set_dict_def new_instance_def)
next
  case ValidationError
  with assms(1) show ?thesis
    by (intro init_to_dict_returns [OF _ assms(2-6) _ _ assms(7)])
       (auto simp: ValidationError_init_def set_dict_def new_instance_def)
next
  case BugfixSessionValidationError
  with assms(1) show ?thesis
    by (intro init_to_dict_returns [OF _ assms(2-6) _ _ assms(7)])
       (auto simp: BugfixSessionValidationError_init_def set_dict_def new_instance_def)
next
  case NestedExecutionError
  with assms(1) show ?thesis
    by (intro init_to_dict_returns [OF _ assms(2-6) _ _ assms(7)])
       (auto simp: NestedExecutionError_init_def set_dict_def new_instance_def)
qed

section \<open>The JSON round trip\<close>







































section \<open>to_json and back\<close>

text \<open>
  \<open>to_dict()\<close> is made of JSON-native values when the code and the entries of the context
  are.
\<close>

lemma to_dict_native:
  assumes "to_dict e = Inr d" and "code e = Inr c" and "json_native c"
    and "context_to_dict e = Inr cd" and "json_native (PDict cd)"
  shows "json_native (PDict d)"
proof -
  from to_dict_shape [OF assms(1)] assms(2,4) obtain msg ts where
    d: "d = [(PStr ''name'', PStr (class_name (cls e))), (PStr ''code'', c),
             (PStr ''message'', PStr msg), (PStr ''timestamp'', PStr ts)] @
            (if cd \<noteq> [] then [(PStr ''context'', PDict cd)] else []) @
            (case cause e of
               None \<Rightarrow> []
             | Some ex \<Rightarrow>
                 [(PStr ''cause'',
                   PDict [(PStr ''name'', PStr (exc_class_name ex)),
                          (PStr ''message'', PStr (case exc_str ex of Inr s \<Rightarrow> s | Inl x \<Rightarrow> []))])])"
    by auto
  show ?thesis
    using assms(3,5) unfolding d by (cases "cause e") auto
qed




end
